theory Spec2Isabelle
  imports Main
begin

section \<open>Decimal numbers\<close>

text \<open>
  A finite \<open>decimal.Decimal\<close> is a sign, a coefficient and an exponent: the number
  \<open>(-1)^sign * coefficient * 10^exponent\<close>. The model covers the finite decimals whose
  exponents stay inside the default context's range (\<open>Emin = -999999\<close>,
  \<open>Emax = 999999\<close>); the default context has 28 digits of precision and rounds
  half-even.
\<close>

record Decimal =
  dsign :: bool
  dint :: nat
  dexp :: int

section \<open>Entgeltgruppe, Stufe, GuS, Gehalt\<close>

datatype Entgeltgruppe = E_10 | E_13

datatype Stufe = eins | zwei | drei | vier | fuenf | sechs

record GuS =
  gruppe :: Entgeltgruppe
  stufe :: Stufe

record Gehalt =
  brutto :: Decimal
  sonderzahlung :: Decimal

section \<open>Errors\<close>

text \<open>
  The exceptions the module can raise: \<open>ValueError\<close> (an enum lookup by a value no member
  has, or \<open>date(y, m, d)\<close> outside the calendar), the \<open>AssertionError\<close> of
  \<open>mitGehalt\<close> (its message is formatted from the year, the group and step, and the
  salary already stored), \<open>KeyError\<close> (a dictionary read at a missing key) and
  \<open>InvalidOperation\<close> (a \<open>quantize\<close> whose result needs more digits than the
  context's precision).
\<close>

datatype error =
    ValueError
  | AssertionError int GuS Gehalt
  | KeyError
  | InvalidOperation

section \<open>Operations of Stufe\<close>

text \<open>The value of each member, as the class body assigns it.\<close>

fun Stufe_value :: "Stufe \<Rightarrow> int" where
  "Stufe_value eins = 1"
| "Stufe_value zwei = 2"
| "Stufe_value drei = 3"
| "Stufe_value vier = 4"
| "Stufe_value fuenf = 5"
| "Stufe_value sechs = 6"

text \<open>
  \<open>Enum\<close> calls \<open>__init__(self, jahre)\<close> with the member's value, so \<open>self.jahre\<close>
  is the value.
\<close>

definition jahre :: "Stufe \<Rightarrow> int" where
  "jahre s = Stufe_value s"

text \<open>\<open>Stufe(v)\<close>: the member with value \<open>v\<close>, \<open>ValueError\<close> when there is none.\<close>

definition Stufe_of :: "int \<Rightarrow> error + Stufe" where
  "Stufe_of v =
     (if v = 1 then Inr eins
      else if v = 2 then Inr zwei
      else if v = 3 then Inr drei
      else if v = 4 then Inr vier
      else if v = 5 then Inr fuenf
      else if v = 6 then Inr sechs
      else Inl ValueError)"

definition naechste :: "Stufe \<Rightarrow> error + Stufe" where
  "naechste s =
     (if Stufe_value s < Stufe_value sechs then Stufe_of (Stufe_value s + 1) else Inr s)"

section \<open>Dates\<close>

text \<open>
  A \<open>datetime.date\<close> has a year, a month and a day. The constructor accepts the years
  1 to 9999, the months 1 to 12 and the days 1 to the length of the month, and raises
  \<open>ValueError\<close> otherwise; dates compare as the triples (year, month, day).
\<close>

record date =
  year :: int
  month :: int
  day :: int

definition MINYEAR :: int where
  "MINYEAR = 1"

definition MAXYEAR :: int where
  "MAXYEAR = 9999"

definition is_leap :: "int \<Rightarrow> bool" where
  "is_leap y = (y mod 4 = 0 \<and> (if y mod 100 = 0 then y mod 400 = 0 else True))"

definition days_in_month :: "int \<Rightarrow> int \<Rightarrow> int" where
  "days_in_month y m =
     (if m = 2 \<and> is_leap y then 29
      else if m = 2 then 28
      else if m = 4 \<or> m = 6 \<or> m = 9 \<or> m = 11 then 30
      else 31)"

definition valid_date :: "date \<Rightarrow> bool" where
  "valid_date d =
     (MINYEAR \<le> year d \<and> year d \<le> MAXYEAR \<and> 1 \<le> month d \<and> month d \<le> 12 \<and>
      1 \<le> day d \<and> day d \<le> days_in_month (year d) (month d))"

definition mk_date :: "int \<Rightarrow> int \<Rightarrow> int \<Rightarrow> error + date" where
  "mk_date y m d =
     (if valid_date \<lparr>year = y, month = m, day = d\<rparr>
      then Inr \<lparr>year = y, month = m, day = d\<rparr>
      else Inl ValueError)"

definition date_le :: "date \<Rightarrow> date \<Rightarrow> bool" where
  "date_le a b =
     (year a < year b \<or>
      (year a = year b \<and> (month a < month b \<or> (month a = month b \<and> day a \<le> day b))))"

definition date_less :: "date \<Rightarrow> date \<Rightarrow> bool" where
  "date_less a b =
     (year a < year b \<or>
      (year a = year b \<and> (month a < month b \<or> (month a = month b \<and> day a < day b))))"

definition naechsterAufstieg :: "Stufe \<Rightarrow> date \<Rightarrow> error + date" where
  "naechsterAufstieg s letzterAufstieg =
     mk_date (year letzterAufstieg + jahre s) (month letzterAufstieg) (day letzterAufstieg)"

section \<open>Stelle\<close>

record Stelle =
  gus :: GuS
  beginn :: date

text \<open>
  The loop of \<open>Stelle.am\<close>, on its three variables. Each pass calls \<open>naechste\<close> and
  \<open>naechsterAufstieg\<close>, and an exception of either leaves the loop.
\<close>

function am_loop ::
  "Stufe \<Rightarrow> date \<Rightarrow> date \<Rightarrow> date \<Rightarrow> error + (Stufe \<times> date)" where
  "am_loop neueStufe neuesSeit naechstesSeit datum =
     (if date_le naechstesSeit datum then
        (case naechste neueStufe of
           Inl e \<Rightarrow> Inl e
         | Inr s \<Rightarrow>
             (case naechsterAufstieg s naechstesSeit of
                Inl e \<Rightarrow> Inl e
              | Inr x \<Rightarrow> am_loop s naechstesSeit x datum))
      else Inr (neueStufe, neuesSeit))"
  by pat_completeness auto

termination am_loop
proof (relation "measure (\<lambda>(s, n, x, d). nat (year d - year x + 1))", goal_cases)
  case 1
  show ?case by simp
next
  case (2 neueStufe neuesSeit naechstesSeit datum s x)
  have le: "year naechstesSeit \<le> year datum"
    using 2(1) by (auto simp: date_le_def)
  have "1 \<le> jahre s"
    by (cases s) (simp_all add: jahre_def)
  moreover have "year x = year naechstesSeit + jahre s"
    using 2(3) by (auto simp: naechsterAufstieg_def mk_date_def split: if_splits)
  ultimately have "year naechstesSeit < year x" by simp
  with le show ?case by simp
qed

definition am :: "Stelle \<Rightarrow> date \<Rightarrow> error + Stelle" where
  "am self datum =
     (case naechsterAufstieg (stufe (gus self)) (beginn self) of
        Inl e \<Rightarrow> Inl e
      | Inr naechstesSeit \<Rightarrow>
          (case am_loop (stufe (gus self)) (beginn self) naechstesSeit datum of
             Inl e \<Rightarrow> Inl e
           | Inr (neueStufe, neuesSeit) \<Rightarrow>
               Inr (if neueStufe = stufe (gus self) then self
                    else \<lparr>gus = \<lparr>gruppe = gruppe (gus self), stufe = neueStufe\<rparr>,
                          beginn = neuesSeit\<rparr>)))"

text \<open>
  The same loop with nothing assumed about its termination: the result is \<open>None\<close>
  when the loop runs forever.
\<close>

partial_function (option) am_while ::
  "Stufe \<Rightarrow> date \<Rightarrow> date \<Rightarrow> date \<Rightarrow> (error + (Stufe \<times> date)) option" where
  "am_while neueStufe neuesSeit naechstesSeit datum =
     (if date_le naechstesSeit datum then
        (case naechste neueStufe of
           Inl e \<Rightarrow> Some (Inl e)
         | Inr s \<Rightarrow>
             (case naechsterAufstieg s naechstesSeit of
                Inl e \<Rightarrow> Some (Inl e)
              | Inr x \<Rightarrow> am_while s naechstesSeit x datum))
      else Some (Inr (neueStufe, neuesSeit)))"

text \<open>
  \<open>steigt s t\<close>: the step \<open>t\<close> is reached from \<open>s\<close> by zero or more calls of
  \<open>naechste\<close>.
\<close>

inductive steigt :: "Stufe \<Rightarrow> Stufe \<Rightarrow> bool" where
  steigt_refl: "steigt s s"
| steigt_step: "steigt s t \<Longrightarrow> naechste t = Inr u \<Longrightarrow> steigt s u"

section \<open>Decimal arithmetic\<close>

definition prec :: nat where
  "prec = 28"

text \<open>The number of digits of a coefficient (the length of its string; \<open>0\<close> has one).\<close>

fun ndigits :: "nat \<Rightarrow> nat" where
  "ndigits n = (if n < 10 then 1 else Suc (ndigits (n div 10)))"

text \<open>Dropping the last \<open>k\<close> digits of a coefficient, under the two rounding modes.\<close>

definition round_half_even :: "nat \<Rightarrow> nat \<Rightarrow> nat" where
  "round_half_even n k =
     (let q = n div 10 ^ k; r = n mod 10 ^ k
      in if 2 * r > 10 ^ k \<or> (2 * r = 10 ^ k \<and> odd q) then q + 1 else q)"

definition round_half_up :: "nat \<Rightarrow> nat \<Rightarrow> nat" where
  "round_half_up n k =
     (let q = n div 10 ^ k; r = n mod 10 ^ k
      in if 2 * r \<ge> 10 ^ k then q + 1 else q)"

text \<open>
  \<open>Decimal._fix\<close>: a result with more than \<open>prec\<close> digits is rounded to \<open>prec\<close> digits
  with the context's rounding (half-even); a carry into one more digit drops the last.
\<close>

definition Decimal_fix :: "Decimal \<Rightarrow> Decimal" where
  "Decimal_fix x =
     (if ndigits (dint x) > prec then
        (let k = ndigits (dint x) - prec; c = round_half_even (dint x) k
         in if ndigits c > prec
            then \<lparr>dsign = dsign x, dint = c div 10, dexp = dexp x + int k + 1\<rparr>
            else \<lparr>dsign = dsign x, dint = c, dexp = dexp x + int k\<rparr>)
      else x)"

definition Decimal_mul :: "Decimal \<Rightarrow> Decimal \<Rightarrow> Decimal" where
  "Decimal_mul x y =
     Decimal_fix \<lparr>dsign = (dsign x \<noteq> dsign y), dint = dint x * dint y, dexp = dexp x + dexp y\<rparr>"

definition adjusted :: "Decimal \<Rightarrow> int" where
  "adjusted x = dexp x + int (ndigits (dint x)) - 1"

definition rescale_half_up :: "Decimal \<Rightarrow> int \<Rightarrow> Decimal" where
  "rescale_half_up x e =
     (if dexp x \<ge> e
      then \<lparr>dsign = dsign x, dint = dint x * 10 ^ nat (dexp x - e), dexp = e\<rparr>
      else \<lparr>dsign = dsign x, dint = round_half_up (dint x) (nat (e - dexp x)), dexp = e\<rparr>)"

text \<open>\<open>x.quantize(Decimal(10) ** e, rounding=ROUND_HALF_UP)\<close>.\<close>

definition quantize_half_up :: "Decimal \<Rightarrow> int \<Rightarrow> error + Decimal" where
  "quantize_half_up x e =
     (if dint x = 0 then Inr \<lparr>dsign = dsign x, dint = 0, dexp = e\<rparr>
      else if adjusted x - e + 1 > int prec then Inl InvalidOperation
      else (let ans = rescale_half_up x e
            in if ndigits (dint ans) > prec then Inl InvalidOperation else Inr ans))"

text \<open>\<open>dec\<close>, applied to a \<open>Decimal\<close> (which \<open>Decimal(euros)\<close> returns as it is).\<close>

definition dec :: "Decimal \<Rightarrow> error + Decimal" where
  "dec euros = quantize_half_up euros (- 2)"

text \<open>
  \<open>Decimal(f)\<close> of a float \<open>f = n / 2^k\<close> is exact: the coefficient is \<open>n * 5^k\<close> and the
  exponent is \<open>-k\<close>.
\<close>

definition Decimal_from_ratio :: "nat \<Rightarrow> nat \<Rightarrow> Decimal" where
  "Decimal_from_ratio n k = \<lparr>dsign = False, dint = n * 5 ^ k, dexp = - int k\<rparr>"

section \<open>OetvKosten\<close>

text \<open>
  The float \<open>1. + OetvKosten.arbeitgeberKostenZuschlag\<close>, with
  \<open>arbeitgeberKostenZuschlag = 0.3\<close>: the double \<open>0.3\<close> is \<open>5404319552844595 / 2^54\<close>, and
  the double nearest to its sum with 1 is \<open>5854679515581645 / 2^52\<close>. The pair is the
  numerator and the binary exponent of the denominator.
\<close>

definition arbeitgeberKostenZuschlag :: "nat \<times> nat" where
  "arbeitgeberKostenZuschlag = (5404319552844595, 54)"

definition eins_plus_arbeitgeberKostenZuschlag :: "nat \<times> nat" where
  "eins_plus_arbeitgeberKostenZuschlag = (5854679515581645, 52)"

record OetvKosten =
  gehaelter :: "(int \<times> GuS) \<rightharpoonup> Gehalt"
  zuschlag :: Decimal

definition OetvKosten_init :: OetvKosten where
  "OetvKosten_init =
     \<lparr>gehaelter = Map.empty,
      zuschlag = Decimal_from_ratio (fst eins_plus_arbeitgeberKostenZuschlag)
                   (snd eins_plus_arbeitgeberKostenZuschlag)\<rparr>"

text \<open>
  \<open>mitGehalt\<close> returns the ledger after the call and whether the call raised: the
  assertion fails before anything is stored.
\<close>

definition mitGehalt ::
  "OetvKosten \<Rightarrow> int \<Rightarrow> GuS \<Rightarrow> Gehalt \<Rightarrow> OetvKosten \<times> (error + unit)" where
  "mitGehalt self jahr gs gehalt =
     (let key = (jahr, gs)
      in case gehaelter self key of
           Some g \<Rightarrow> (self, Inl (AssertionError jahr gs g))
         | None \<Rightarrow> (self\<lparr>gehaelter := (gehaelter self)(key \<mapsto> gehalt)\<rparr>, Inr ()))"

definition summeMonatlich :: "OetvKosten \<Rightarrow> int \<Rightarrow> GuS \<Rightarrow> error + Decimal" where
  "summeMonatlich self jahr gs =
     (case gehaelter self (jahr, gs) of
        None \<Rightarrow> Inl KeyError
      | Some g \<Rightarrow> dec (Decimal_mul (brutto g) (zuschlag self)))"

text \<open>
  The monthly total in the specification's words: the stored gross multiplied by exactly
  1.30 and rounded half-up to two decimal places.
\<close>

definition monthlyTotal_spec :: "OetvKosten \<Rightarrow> int \<Rightarrow> GuS \<Rightarrow> error + Decimal" where
  "monthlyTotal_spec self jahr gs =
     (case gehaelter self (jahr, gs) of
        None \<Rightarrow> Inl KeyError
      | Some g \<Rightarrow>
          Inr (rescale_half_up
                 \<lparr>dsign = dsign (brutto g), dint = dint (brutto g) * 130,
                  dexp = dexp (brutto g) - 2\<rparr> (- 2)))"

section \<open>Steps and dates\<close>

declare am_loop.simps [simp del]

lemma jahre_pos: "1 \<le> jahre s"
  by (cases s) (simp_all add: jahre_def)

lemma jahre_le_6: "jahre s \<le> 6"
  by (cases s) (simp_all add: jahre_def)

lemma naechste_cases:
  "naechste eins = Inr zwei" "naechste zwei = Inr drei" "naechste drei = Inr vier"
  "naechste vier = Inr fuenf" "naechste fuenf = Inr sechs" "naechste sechs = Inr sechs"
  by (simp_all add: naechste_def Stufe_of_def)

lemma naechste_total: "\<exists>t. naechste s = Inr t"
  by (cases s) (simp_all add: naechste_cases)

lemma naechste_value:
  "naechste s = Inr t \<Longrightarrow> Stufe_value s \<le> Stufe_value t \<and> Stufe_value t \<le> 6"
  by (cases s) (auto simp: naechste_cases)

lemma naechsterAufstieg_year:
  "naechsterAufstieg s x = Inr x' \<Longrightarrow> year x' = year x + jahre s"
  by (auto simp: naechsterAufstieg_def mk_date_def split: if_splits)

lemma naechsterAufstieg_month_day:
  "naechsterAufstieg s x = Inr x' \<Longrightarrow> month x' = month x \<and> day x' = day x"
  by (auto simp: naechsterAufstieg_def mk_date_def split: if_splits)

lemma naechsterAufstieg_later:
  "naechsterAufstieg s x = Inr x' \<Longrightarrow> date_less x x' \<and> date_le x x'"
  using jahre_pos [of s]
  by (auto simp: date_less_def date_le_def dest!: naechsterAufstieg_year)

lemma date_le_refl: "date_le a a"
  by (simp add: date_le_def)

lemma date_le_trans: "date_le a b \<Longrightarrow> date_le b c \<Longrightarrow> date_le a c"
  by (auto simp: date_le_def)

lemma date_less_not_le: "date_less a b \<Longrightarrow> \<not> date_le b a"
  by (auto simp: date_le_def date_less_def)

lemma am_loop_exit:
  "\<not> date_le x d \<Longrightarrow> am_loop s n x d = Inr (s, n)"
  by (subst am_loop.simps) simp

lemma am_loop_step:
  "date_le x d \<Longrightarrow> naechste s = Inr t \<Longrightarrow> naechsterAufstieg t x = Inr x' \<Longrightarrow>
   am_loop s n x d = am_loop t x x' d"
  by (subst am_loop.simps) simp

lemma am_loop_final:
  "am_loop s n x d = Inr (s', n') \<Longrightarrow>
   (s' = s \<and> n' = n \<and> \<not> date_le x d) \<or>
   (\<exists>xf. naechsterAufstieg s' n' = Inr xf \<and> \<not> date_le xf d \<and> date_le x n' \<and> date_le n' d)"
proof (induction s n x d rule: am_loop.induct)
  case (1 s n x d)
  show ?case
  proof (cases "date_le x d")
    case False
    with "1.prems" show ?thesis by (simp add: am_loop_exit)
  next
    case True
    from naechste_total obtain t where t: "naechste s = Inr t" by blast
    from True t "1.prems" obtain x' where x': "naechsterAufstieg t x = Inr x'"
      by (subst (asm) am_loop.simps) (auto split: sum.splits)
    from True t x' "1.prems" have rec: "am_loop t x x' d = Inr (s', n')"
      by (simp add: am_loop_step)
    from "1.IH" [OF True t x' rec]
    show ?thesis
    proof (elim disjE conjE exE)
      assume "s' = t" "n' = x" "\<not> date_le x' d"
      with x' True show ?thesis by (auto simp: date_le_refl)
    next
      fix xf
      assume "naechsterAufstieg s' n' = Inr xf" "\<not> date_le xf d" "date_le x' n'" "date_le n' d"
      moreover from x' have "date_le x x'" by (simp add: naechsterAufstieg_later)
      ultimately show ?thesis by (blast intro: date_le_trans)
    qed
  qed
qed

lemma am_loop_steigt:
  "am_loop s n x d = Inr (s', n') \<Longrightarrow> steigt s0 s \<Longrightarrow> steigt s0 s'"
proof (induction s n x d rule: am_loop.induct)
  case (1 s n x d)
  show ?case
  proof (cases "date_le x d")
    case False
    with "1.prems" show ?thesis by (simp add: am_loop_exit)
  next
    case True
    from naechste_total obtain t where t: "naechste s = Inr t" by blast
    from True t "1.prems" obtain x' where x': "naechsterAufstieg t x = Inr x'"
      by (subst (asm) am_loop.simps) (auto split: sum.splits)
    from True t x' "1.prems" have rec: "am_loop t x x' d = Inr (s', n')"
      by (simp add: am_loop_step)
    from "1.prems"(2) t have "steigt s0 t" by (rule steigt_step)
    with "1.IH" [OF True t x' rec] show ?thesis .
  qed
qed

lemma steigt_value: "steigt s t \<Longrightarrow> Stufe_value s \<le> Stufe_value t \<and> Stufe_value t \<le> 6"
proof (induction rule: steigt.induct)
  case (steigt_refl s)
  show ?case by (cases s) simp_all
next
  case (steigt_step s t u)
  with naechste_value [of t u] show ?case by simp
qed

lemma am_loop_mono:
  "date_le d1 d2 \<Longrightarrow> am_loop s n x d2 = Inr (s2, n2) \<Longrightarrow>
   \<exists>s1 n1. am_loop s n x d1 = Inr (s1, n1) \<and> Stufe_value s1 \<le> Stufe_value s2"
proof (induction s n x d1 arbitrary: s2 n2 rule: am_loop.induct)
  case (1 s n x d1)
  show ?case
  proof (cases "date_le x d1")
    case False
    from "1.prems"(2) have "steigt s s2"
      by (rule am_loop_steigt) (rule steigt_refl)
    then have "Stufe_value s \<le> Stufe_value s2" by (simp add: steigt_value)
    with False show ?thesis by (simp add: am_loop_exit)
  next
    case True
    from True "1.prems"(1) have le2: "date_le x d2" by (rule date_le_trans)
    from naechste_total obtain t where t: "naechste s = Inr t" by blast
    from le2 t "1.prems"(2) obtain x' where x': "naechsterAufstieg t x = Inr x'"
      by (subst (asm) am_loop.simps) (auto split: sum.splits)
    from le2 t x' "1.prems"(2) have "am_loop t x x' d2 = Inr (s2, n2)"
      by (simp add: am_loop_step)
    from "1.IH" [OF True t x' "1.prems"(1) this] True t x' show ?thesis
      by (simp add: am_loop_step)
  qed
qed

lemma am_InrD:
  "am p d = Inr q \<Longrightarrow>
   \<exists>x s' n'. naechsterAufstieg (stufe (gus p)) (beginn p) = Inr x \<and>
     am_loop (stufe (gus p)) (beginn p) x d = Inr (s', n') \<and>
     q = (if s' = stufe (gus p) then p
          else \<lparr>gus = \<lparr>gruppe = gruppe (gus p), stufe = s'\<rparr>, beginn = n'\<rparr>)"
  by (auto simp: am_def split: sum.splits prod.splits)

lemma am_InrI:
  "naechsterAufstieg (stufe (gus p)) (beginn p) = Inr x \<Longrightarrow>
   am_loop (stufe (gus p)) (beginn p) x d = Inr (s', n') \<Longrightarrow>
   am p d = Inr (if s' = stufe (gus p) then p
          else \<lparr>gus = \<lparr>gruppe = gruppe (gus p), stufe = s'\<rparr>, beginn = n'\<rparr>)"
  by (simp add: am_def)

lemma am_idem: "am p d = Inr q \<Longrightarrow> am q d = Inr q"
proof -
  assume a: "am p d = Inr q"
  from am_InrD [OF a] obtain x s' n' where
    x: "naechsterAufstieg (stufe (gus p)) (beginn p) = Inr x" and
    l: "am_loop (stufe (gus p)) (beginn p) x d = Inr (s', n')" and
    q: "q = (if s' = stufe (gus p) then p
          else \<lparr>gus = \<lparr>gruppe = gruppe (gus p), stufe = s'\<rparr>, beginn = n'\<rparr>)"
    by blast
  show ?thesis
  proof (cases "s' = stufe (gus p)")
    case True
    with q a show ?thesis by simp
  next
    case False
    with q have q': "stufe (gus q) = s'" "beginn q = n'" by simp_all
    from am_loop_final [OF l] False obtain xf where
      xf: "naechsterAufstieg s' n' = Inr xf" "\<not> date_le xf d" by blast
    from xf(2) have "am_loop s' n' xf d = Inr (s', n')" by (rule am_loop_exit)
    with xf(1) q' have "am q d = Inr (if s' = stufe (gus q) then q
          else \<lparr>gus = \<lparr>gruppe = gruppe (gus q), stufe = s'\<rparr>, beginn = n'\<rparr>)"
      by (intro am_InrI) simp_all
    with q' show ?thesis by simp
  qed
qed

lemma am_post:
  assumes a: "am p d = Inr q"
  shows "gruppe (gus q) = gruppe (gus p) \<and>
     steigt (stufe (gus p)) (stufe (gus q)) \<and>
     Stufe_value (stufe (gus p)) \<le> Stufe_value (stufe (gus q)) \<and>
     Stufe_value (stufe (gus q)) \<le> 6 \<and>
     date_le (beginn p) (beginn q) \<and>
     (q = p \<or> date_le (beginn q) d)"
proof -
  from am_InrD [OF a] obtain x s' n' where
    x: "naechsterAufstieg (stufe (gus p)) (beginn p) = Inr x" and
    l: "am_loop (stufe (gus p)) (beginn p) x d = Inr (s', n')" and
    q: "q = (if s' = stufe (gus p) then p
          else \<lparr>gus = \<lparr>gruppe = gruppe (gus p), stufe = s'\<rparr>, beginn = n'\<rparr>)"
    by blast
  from l have st: "steigt (stufe (gus p)) s'"
    by (rule am_loop_steigt) (rule steigt_refl)
  note sv = steigt_value [OF st]
  show ?thesis
  proof (cases "s' = stufe (gus p)")
    case True
    with q sv show ?thesis by (simp add: steigt_refl date_le_refl)
  next
    case False
    with q have q': "stufe (gus q) = s'" "beginn q = n'" "gruppe (gus q) = gruppe (gus p)"
      by simp_all
    from am_loop_final [OF l] False have "date_le x n'" "date_le n' d" by blast+
    moreover from x have "date_le (beginn p) x" by (simp add: naechsterAufstieg_later)
    ultimately have "date_le (beginn p) n'" "date_le n' d"
      by (blast intro: date_le_trans)+
    with q' st sv show ?thesis by simp
  qed
qed

lemma am_while_eq: "am_while s n x d = Some (am_loop s n x d)"
proof (induction s n x d rule: am_loop.induct)
  case (1 s n x d)
  show ?case
  proof (cases "date_le x d")
    case False
    then show ?thesis
      by (subst am_while.simps) (simp add: am_loop_exit)
  next
    case True
    show ?thesis
    proof (cases "naechste s")
      case (Inl e)
      with True show ?thesis
        by (subst am_while.simps, subst am_loop.simps) simp
    next
      case (Inr t)
      show ?thesis
      proof (cases "naechsterAufstieg t x")
        case (Inl e)
        with True \<open>naechste s = Inr t\<close> show ?thesis
          by (subst am_while.simps, subst am_loop.simps) simp
      next
        case (Inr x')
        with True \<open>naechste s = Inr t\<close> "1.IH" [OF True \<open>naechste s = Inr t\<close> Inr]
        show ?thesis
          by (subst am_while.simps, subst am_loop.simps) simp
      qed
    qed
  qed
qed

lemma Stufe_value_inj: "Stufe_value s = Stufe_value t \<Longrightarrow> s = t"
  by (cases s; cases t) simp_all

lemma days_in_month_other_year:
  "\<not> (m = 2 \<and> dd = 29) \<Longrightarrow> dd \<le> days_in_month y m \<Longrightarrow> dd \<le> days_in_month y' m"
  by (auto simp: days_in_month_def split: if_splits)

lemma naechsterAufstieg_ok:
  assumes v: "valid_date x"
    and nf: "\<not> (month x = 2 \<and> day x = 29)"
    and y: "year x + jahre s \<le> MAXYEAR"
  shows "naechsterAufstieg s x = Inr \<lparr>year = year x + jahre s, month = month x, day = day x\<rparr>"
proof -
  from v have "day x \<le> days_in_month (year x) (month x)" by (simp add: valid_date_def)
  with nf have "day x \<le> days_in_month (year x + jahre s) (month x)"
    by (rule days_in_month_other_year)
  moreover from v jahre_pos [of s] have "MINYEAR \<le> year x + jahre s"
    by (simp add: valid_date_def MINYEAR_def)
  ultimately have "valid_date \<lparr>year = year x + jahre s, month = month x, day = day x\<rparr>"
    using v y by (simp add: valid_date_def)
  then show ?thesis by (simp add: naechsterAufstieg_def mk_date_def)
qed

lemma naechsterAufstieg_valid:
  "naechsterAufstieg s x = Inr x' \<Longrightarrow> valid_date x'"
  by (auto simp: naechsterAufstieg_def mk_date_def split: if_splits)

lemma am_loop_returns:
  "valid_date x \<Longrightarrow> \<not> (month x = 2 \<and> day x = 29) \<Longrightarrow> year d + 6 \<le> MAXYEAR \<Longrightarrow>
   \<exists>s' n'. am_loop s n x d = Inr (s', n')"
proof (induction s n x d rule: am_loop.induct)
  case (1 s n x d)
  show ?case
  proof (cases "date_le x d")
    case False
    then show ?thesis by (simp add: am_loop_exit)
  next
    case True
    then have "year x \<le> year d" by (auto simp: date_le_def)
    from naechste_total obtain t where t: "naechste s = Inr t" by blast
    from \<open>year x \<le> year d\<close> "1.prems"(3) jahre_le_6 [of t]
    have "year x + jahre t \<le> MAXYEAR" by simp
    with "1.prems"(1,2)
    have x': "naechsterAufstieg t x =
        Inr \<lparr>year = year x + jahre t, month = month x, day = day x\<rparr>"
      by (rule naechsterAufstieg_ok)
    let ?x' = "\<lparr>year = year x + jahre t, month = month x, day = day x\<rparr>"
    from x' have "valid_date ?x'" by (rule naechsterAufstieg_valid)
    moreover from "1.prems"(2) have "\<not> (month ?x' = 2 \<and> day ?x' = 29)" by simp
    ultimately have "\<exists>s' n'. am_loop t x ?x' d = Inr (s', n')"
      using "1.prems"(3) by (rule "1.IH" [OF True t x'])
    with True t x' show ?thesis by (simp add: am_loop_step)
  qed
qed

lemma am_same_step:
  "naechsterAufstieg (stufe (gus p)) (beginn p) = Inr x \<Longrightarrow>
   am_loop (stufe (gus p)) (beginn p) x d = Inr (s', n') \<Longrightarrow> s' = stufe (gus p) \<Longrightarrow>
   am p d = Inr p"
  by (simp add: am_def)

lemma am_before_beginn:
  assumes v: "valid_date (beginn p)"
    and nf: "\<not> (month (beginn p) = 2 \<and> day (beginn p) = 29)"
    and y: "year (beginn p) + jahre (stufe (gus p)) \<le> MAXYEAR"
    and lt: "date_less d (beginn p)"
  shows "am p d = Inr p"
proof -
  let ?x = "\<lparr>year = year (beginn p) + jahre (stufe (gus p)), month = month (beginn p),
             day = day (beginn p)\<rparr>"
  from v nf y have x: "naechsterAufstieg (stufe (gus p)) (beginn p) = Inr ?x"
    by (rule naechsterAufstieg_ok)
  from lt jahre_pos [of "stufe (gus p)"] have "\<not> date_le ?x d"
    by (auto simp: date_le_def date_less_def)
  then have "am_loop (stufe (gus p)) (beginn p) ?x d = Inr (stufe (gus p), beginn p)"
    by (rule am_loop_exit)
  with x show ?thesis by (rule am_same_step) simp
qed

lemma am_sechs_same:
  assumes s: "stufe (gus p) = sechs" and a: "am p d = Inr q"
  shows "q = p"
proof -
  from am_post [OF a] s have "Stufe_value (stufe (gus q)) = Stufe_value (stufe (gus p))"
    by simp
  then have eq: "stufe (gus q) = stufe (gus p)" by (rule Stufe_value_inj)
  from am_InrD [OF a] obtain x s' n' where
    q: "q = (if s' = stufe (gus p) then p
          else \<lparr>gus = \<lparr>gruppe = gruppe (gus p), stufe = s'\<rparr>, beginn = n'\<rparr>)"
    by blast
  show ?thesis
  proof (cases "s' = stufe (gus p)")
    case True
    with q show ?thesis by simp
  next
    case False
    with q have "stufe (gus q) = s'" by simp
    with eq False show ?thesis by simp
  qed
qed

lemma am_sechs_returns:
  assumes s: "stufe (gus p) = sechs"
    and v: "valid_date (beginn p)"
    and nf: "\<not> (month (beginn p) = 2 \<and> day (beginn p) = 29)"
    and y: "year (beginn p) + 6 \<le> MAXYEAR"
    and yd: "year d + 6 \<le> MAXYEAR"
  shows "am p d = Inr p"
proof -
  let ?x = "\<lparr>year = year (beginn p) + jahre (stufe (gus p)), month = month (beginn p),
             day = day (beginn p)\<rparr>"
  from y s have "year (beginn p) + jahre (stufe (gus p)) \<le> MAXYEAR"
    by (simp add: jahre_def)
  with v nf have x: "naechsterAufstieg (stufe (gus p)) (beginn p) = Inr ?x"
    by (rule naechsterAufstieg_ok)
  then have "valid_date ?x" by (rule naechsterAufstieg_valid)
  moreover from nf have "\<not> (month ?x = 2 \<and> day ?x = 29)" by simp
  ultimately obtain s' n' where
    l: "am_loop (stufe (gus p)) (beginn p) ?x d = Inr (s', n')"
    using yd am_loop_returns by blast
  from am_InrI [OF x l] obtain q where "am p d = Inr q" by blast
  with am_sechs_same [OF s] show ?thesis by simp
qed

section \<open>Decimal evaluation\<close>

declare ndigits.simps [simp del]

lemma ndigits_eqI:
  "0 < k \<Longrightarrow> 10 ^ (k - 1) \<le> n \<Longrightarrow> n < 10 ^ k \<Longrightarrow> ndigits n = k"
proof (induction k arbitrary: n)
  case 0
  then show ?case by simp
next
  case (Suc k)
  show ?case
  proof (cases "k = 0")
    case True
    with Suc.prems show ?thesis by (simp add: ndigits.simps [of n])
  next
    case False
    then obtain j where j: "k = Suc j" by (cases k) auto
    from Suc.prems j have ge: "10 \<le> n"
      by (simp) (metis One_nat_def le_trans one_le_numeral one_le_power mult.right_neutral mult_le_mono2)
    from Suc.prems j have lo: "10 ^ (k - 1) \<le> n div 10" by simp
    from Suc.prems have hi: "n div 10 < 10 ^ k"
      by (simp add: less_mult_imp_div_less mult.commute)
    from False have "0 < k" by simp
    from Suc.IH [OF this lo hi] ge show ?thesis
      by (simp add: ndigits.simps [of n])
  qed
qed

text \<open>
  The two floats are the doubles nearest to 3/10 and to the sum of 1 and the first: the
  distances are below half a unit in the last place (\<open>2^-55\<close> and \<open>2^-53\<close>).
\<close>

lemma float_constants:
  "\<bar>10 * int (fst arbeitgeberKostenZuschlag) - 3 * 2 ^ snd arbeitgeberKostenZuschlag\<bar> < 5 \<and>
   \<bar>4 * int (fst eins_plus_arbeitgeberKostenZuschlag)
      - (2 ^ 54 + int (fst arbeitgeberKostenZuschlag))\<bar> < 2 \<and>
   snd eins_plus_arbeitgeberKostenZuschlag = 52"
  by (simp add: arbeitgeberKostenZuschlag_def eins_plus_arbeitgeberKostenZuschlag_def)

lemma zuschlag_init:
  "zuschlag OetvKosten_init =
     \<lparr>dsign = False, dint = 13000000000000000444089209850062616169452667236328125,
      dexp = - 52\<rparr>"
  by (simp add: OetvKosten_init_def Decimal_from_ratio_def eins_plus_arbeitgeberKostenZuschlag_def)

section \<open>Evaluations\<close>

lemma am_eins_2050:
  "am \<lparr>gus = \<lparr>gruppe = E_13, stufe = eins\<rparr>, beginn = \<lparr>year = 2019, month = 10, day = 1\<rparr>\<rparr>
      \<lparr>year = 2050, month = 6, day = 30\<rparr>
   = Inr \<lparr>gus = \<lparr>gruppe = E_13, stufe = sechs\<rparr>, beginn = \<lparr>year = 2046, month = 10, day = 1\<rparr>\<rparr>"
  by code_simp

lemma am_drei_2030:
  "am \<lparr>gus = \<lparr>gruppe = E_10, stufe = drei\<rparr>, beginn = \<lparr>year = 2018, month = 4, day = 1\<rparr>\<rparr>
      \<lparr>year = 2030, month = 12, day = 31\<rparr>
   = Inr \<lparr>gus = \<lparr>gruppe = E_10, stufe = sechs\<rparr>, beginn = \<lparr>year = 2030, month = 4, day = 1\<rparr>\<rparr>"
  by code_simp

lemma am_drei_2022:
  "am \<lparr>gus = \<lparr>gruppe = E_10, stufe = drei\<rparr>, beginn = \<lparr>year = 2018, month = 4, day = 1\<rparr>\<rparr>
      \<lparr>year = 2022, month = 1, day = 1\<rparr>
   = Inr \<lparr>gus = \<lparr>gruppe = E_10, stufe = vier\<rparr>, beginn = \<lparr>year = 2021, month = 4, day = 1\<rparr>\<rparr>"
  by code_simp

lemma nd58: "ndigits 3900000000000000133226762955018784850835800170898437500000 = 58"
  by (rule ndigits_eqI) simp_all

lemma nd28a: "ndigits 3900000000000000133226762955 = 28"
  by (rule ndigits_eqI) simp_all

lemma nd6: "ndigits 390000 = 6"
  by (rule ndigits_eqI) simp_all

lemma nd69: "ndigits 260000000000000008881784197001252323389053344726562500000000000000000 = 69"
  by (rule ndigits_eqI) simp_all

lemma nd28: "ndigits 2600000000000000088817841970 = 28"
  by (rule ndigits_eqI) simp_all

lemma nd17: "ndigits 26000000000000001 = 17"
  by (rule ndigits_eqI) simp_all

lemma mul_3000:
  "Decimal_mul \<lparr>dsign = False, dint = 300000, dexp = - 2\<rparr> (zuschlag OetvKosten_init)
   = \<lparr>dsign = False, dint = 3900000000000000133226762955, dexp = - 24\<rparr>"
  by (simp add: zuschlag_init Decimal_mul_def Decimal_fix_def nd58 nd28a prec_def
      round_half_even_def Let_def)

lemma dec_3000:
  "dec \<lparr>dsign = False, dint = 3900000000000000133226762955, dexp = - 24\<rparr>
   = Inr \<lparr>dsign = False, dint = 390000, dexp = - 2\<rparr>"
  by (simp add: dec_def quantize_half_up_def adjusted_def rescale_half_up_def nd28a nd6
      prec_def round_half_up_def Let_def)

lemma mul_2e14:
  "Decimal_mul \<lparr>dsign = False, dint = 20000000000000000, dexp = - 2\<rparr> (zuschlag OetvKosten_init)
   = \<lparr>dsign = False, dint = 2600000000000000088817841970, dexp = - 13\<rparr>"
  by (simp add: zuschlag_init Decimal_mul_def Decimal_fix_def nd69 nd28 prec_def
      round_half_even_def Let_def)

lemma dec_2e14:
  "dec \<lparr>dsign = False, dint = 2600000000000000088817841970, dexp = - 13\<rparr>
   = Inr \<lparr>dsign = False, dint = 26000000000000001, dexp = - 2\<rparr>"
  by (simp add: dec_def quantize_half_up_def adjusted_def rescale_half_up_def nd28 nd17
      prec_def round_half_up_def Let_def)

lemma summeMonatlich_after_mitGehalt:
  "summeMonatlich (fst (mitGehalt OetvKosten_init jahr gs gehalt)) jahr gs
   = dec (Decimal_mul (brutto gehalt) (zuschlag OetvKosten_init))"
  by (simp add: summeMonatlich_def mitGehalt_def OetvKosten_init_def)

section \<open>The claims\<close>

text \<open>
  C10: each of the six steps carries an advancement interval, in whole years, equal to
  its own ordinal value: one year for step 1, up to six years for step 6.
\<close>

theorem jahre_equals_ordinal:
  "jahre eins = 1 \<and> jahre zwei = 2 \<and> jahre drei = 3 \<and> jahre vier = 4 \<and>
   jahre fuenf = 5 \<and> jahre sechs = 6"
  by (simp add: jahre_def)


text \<open>
  C4: the projection is idempotent. Projecting the result of \<open>p.am(d)\<close> to the same date
  again gives that same result; when \<open>p.am(d)\<close> raises, so does the composed call, with
  the same exception.
\<close>

theorem am_idempotent:
  "(case am p d of Inl e \<Rightarrow> Inl e | Inr q \<Rightarrow> am q d) = am p d"
  by (cases "am p d") (simp_all add: am_idem)

text \<open>
  C8: the loop of the projection terminates for every step, every pair of dates it starts
  from and every target date, the maximum step included: run with nothing assumed about
  its termination, it returns what the total function returns (a step and a date, or the
  exception of the date arithmetic). Every interval is at least one year, and the next due
  date is strictly later than the date it is computed from.
\<close>

theorem am_while_terminates:
  "am_while s n x d = Some (am_loop s n x d) \<and> 1 \<le> jahre s \<and>
   (naechsterAufstieg s x = Inr x' \<longrightarrow> date_less x x')"
  by (simp add: am_while_eq jahre_pos naechsterAufstieg_later)

theorem am_while_terminates_witness:
  "am_while sechs \<lparr>year = 2020, month = 5, day = 17\<rparr> \<lparr>year = 2026, month = 5, day = 17\<rparr>
      \<lparr>year = 2040, month = 1, day = 1\<rparr>
     = Some (Inr (sechs, \<lparr>year = 2038, month = 5, day = 17\<rparr>)) \<and>
   naechsterAufstieg sechs \<lparr>year = 2026, month = 5, day = 17\<rparr>
     = Inr \<lparr>year = 2032, month = 5, day = 17\<rparr> \<and>
   date_less \<lparr>year = 2026, month = 5, day = 17\<rparr> \<lparr>year = 2032, month = 5, day = 17\<rparr>"
proof -
  have l: "am_loop sechs \<lparr>year = 2020, month = 5, day = 17\<rparr>
      \<lparr>year = 2026, month = 5, day = 17\<rparr> \<lparr>year = 2040, month = 1, day = 1\<rparr>
     = Inr (sechs, \<lparr>year = 2038, month = 5, day = 17\<rparr>)"
    by code_simp
  have n: "naechsterAufstieg sechs \<lparr>year = 2026, month = 5, day = 17\<rparr>
     = Inr \<lparr>year = 2032, month = 5, day = 17\<rparr>"
    by code_simp
  from am_while_terminates [of sechs "\<lparr>year = 2020, month = 5, day = 17\<rparr>"
      "\<lparr>year = 2026, month = 5, day = 17\<rparr>" "\<lparr>year = 2040, month = 1, day = 1\<rparr>"
      "\<lparr>year = 2032, month = 5, day = 17\<rparr>"] l n
  show ?thesis by simp
qed

text \<open>
  C2: identity on no change. When the step the loop computes is the position's own step,
  \<open>p.am(d)\<close> returns \<open>p\<close>. When \<open>d\<close> is earlier than the position's start and the first due
  date exists (the start is not a 29 February and its year plus the interval is at most
  9999), \<open>p.am(d)\<close> returns \<open>p\<close>. A position at the maximum step is returned unchanged
  whenever \<open>p.am(d)\<close> returns, and it does return when the start is not a 29 February and
  the years of the start and of \<open>d\<close> are at most 9993.
\<close>

theorem am_identity:
  "(naechsterAufstieg (stufe (gus p)) (beginn p) = Inr x \<and>
    am_loop (stufe (gus p)) (beginn p) x d = Inr (stufe (gus p), n') \<longrightarrow> am p d = Inr p) \<and>
   (valid_date (beginn p) \<and> \<not> (month (beginn p) = 2 \<and> day (beginn p) = 29) \<and>
    year (beginn p) + jahre (stufe (gus p)) \<le> MAXYEAR \<and> date_less d (beginn p) \<longrightarrow>
      am p d = Inr p) \<and>
   (stufe (gus p) = sechs \<and> am p d = Inr q \<longrightarrow> q = p) \<and>
   (stufe (gus p) = sechs \<and> valid_date (beginn p) \<and>
    \<not> (month (beginn p) = 2 \<and> day (beginn p) = 29) \<and>
    year (beginn p) + 6 \<le> MAXYEAR \<and> year d + 6 \<le> MAXYEAR \<longrightarrow> am p d = Inr p)"
  by (auto intro: am_same_step am_before_beginn am_sechs_same am_sechs_returns)

theorem am_identity_witness:
  "valid_date \<lparr>year = 2020, month = 1, day = 1\<rparr> \<and>
   date_less \<lparr>year = 2019, month = 1, day = 1\<rparr> \<lparr>year = 2020, month = 1, day = 1\<rparr> \<and>
   am \<lparr>gus = \<lparr>gruppe = E_10, stufe = zwei\<rparr>, beginn = \<lparr>year = 2020, month = 1, day = 1\<rparr>\<rparr>
      \<lparr>year = 2019, month = 1, day = 1\<rparr>
   = Inr \<lparr>gus = \<lparr>gruppe = E_10, stufe = zwei\<rparr>, beginn = \<lparr>year = 2020, month = 1, day = 1\<rparr>\<rparr> \<and>
   valid_date \<lparr>year = 2015, month = 8, day = 1\<rparr> \<and>
   am_loop sechs \<lparr>year = 2015, month = 8, day = 1\<rparr> \<lparr>year = 2021, month = 8, day = 1\<rparr>
      \<lparr>year = 2100, month = 1, day = 1\<rparr>
   = Inr (sechs, \<lparr>year = 2099, month = 8, day = 1\<rparr>) \<and>
   am \<lparr>gus = \<lparr>gruppe = E_13, stufe = sechs\<rparr>, beginn = \<lparr>year = 2015, month = 8, day = 1\<rparr>\<rparr>
      \<lparr>year = 2100, month = 1, day = 1\<rparr>
   = Inr \<lparr>gus = \<lparr>gruppe = E_13, stufe = sechs\<rparr>, beginn = \<lparr>year = 2015, month = 8, day = 1\<rparr>\<rparr>"
proof -
  have v1: "valid_date \<lparr>year = 2020, month = 1, day = 1\<rparr>"
    and v2: "valid_date \<lparr>year = 2015, month = 8, day = 1\<rparr>"
    by (simp_all add: valid_date_def MINYEAR_def MAXYEAR_def days_in_month_def)
  have lt: "date_less \<lparr>year = 2019, month = 1, day = 1\<rparr> \<lparr>year = 2020, month = 1, day = 1\<rparr>"
    by (simp add: date_less_def)
  have x2: "naechsterAufstieg sechs \<lparr>year = 2015, month = 8, day = 1\<rparr>
      = Inr \<lparr>year = 2021, month = 8, day = 1\<rparr>"
    by code_simp
  have l2: "am_loop sechs \<lparr>year = 2015, month = 8, day = 1\<rparr>
      \<lparr>year = 2021, month = 8, day = 1\<rparr> \<lparr>year = 2100, month = 1, day = 1\<rparr>
      = Inr (sechs, \<lparr>year = 2099, month = 8, day = 1\<rparr>)"
    by code_simp
  from am_identity [where p = "\<lparr>gus = \<lparr>gruppe = E_10, stufe = zwei\<rparr>,
        beginn = \<lparr>year = 2020, month = 1, day = 1\<rparr>\<rparr>"
      and d = "\<lparr>year = 2019, month = 1, day = 1\<rparr>"] v1 lt
  have r1: "am \<lparr>gus = \<lparr>gruppe = E_10, stufe = zwei\<rparr>,
        beginn = \<lparr>year = 2020, month = 1, day = 1\<rparr>\<rparr> \<lparr>year = 2019, month = 1, day = 1\<rparr>
      = Inr \<lparr>gus = \<lparr>gruppe = E_10, stufe = zwei\<rparr>,
        beginn = \<lparr>year = 2020, month = 1, day = 1\<rparr>\<rparr>"
    by (simp add: jahre_def MAXYEAR_def)
  from am_identity [where p = "\<lparr>gus = \<lparr>gruppe = E_13, stufe = sechs\<rparr>,
        beginn = \<lparr>year = 2015, month = 8, day = 1\<rparr>\<rparr>"
      and d = "\<lparr>year = 2100, month = 1, day = 1\<rparr>"
      and x = "\<lparr>year = 2021, month = 8, day = 1\<rparr>"
      and n' = "\<lparr>year = 2099, month = 8, day = 1\<rparr>"] x2 l2
  have r2: "am \<lparr>gus = \<lparr>gruppe = E_13, stufe = sechs\<rparr>,
        beginn = \<lparr>year = 2015, month = 8, day = 1\<rparr>\<rparr> \<lparr>year = 2100, month = 1, day = 1\<rparr>
      = Inr \<lparr>gus = \<lparr>gruppe = E_13, stufe = sechs\<rparr>,
        beginn = \<lparr>year = 2015, month = 8, day = 1\<rparr>\<rparr>"
    by simp
  from v1 v2 lt l2 r1 r2 show ?thesis by simp
qed

text \<open>
  Without the bound on the years the call does not return the position: at the maximum
  step, for a target in the year 9999, the due date after 9996-01-01 is outside the
  calendar.
\<close>

theorem am_identity_counterexample:
  "valid_date \<lparr>year = 9990, month = 1, day = 1\<rparr> \<and>
   valid_date \<lparr>year = 9999, month = 12, day = 31\<rparr> \<and>
   am \<lparr>gus = \<lparr>gruppe = E_10, stufe = sechs\<rparr>, beginn = \<lparr>year = 9990, month = 1, day = 1\<rparr>\<rparr>
      \<lparr>year = 9999, month = 12, day = 31\<rparr>
   = Inl ValueError"
  by code_simp

text \<open>
  C3: monotonicity of the projection. For dates \<open>d1 \<le> d2\<close>, whenever \<open>p.am(d2)\<close> returns
  a position, \<open>p.am(d1)\<close> returns one too, and its step ordinal is at most that of
  \<open>p.am(d2)\<close>.
\<close>

theorem am_monotone:
  assumes le: "date_le d1 d2" and ret: "am p d2 = Inr q2"
  shows "\<exists>q1. am p d1 = Inr q1 \<and>
     Stufe_value (stufe (gus q1)) \<le> Stufe_value (stufe (gus q2))"
proof -
  from am_InrD [OF ret] obtain x s2 n2 where
    x: "naechsterAufstieg (stufe (gus p)) (beginn p) = Inr x" and
    l2: "am_loop (stufe (gus p)) (beginn p) x d2 = Inr (s2, n2)" and
    q2: "q2 = (if s2 = stufe (gus p) then p
          else \<lparr>gus = \<lparr>gruppe = gruppe (gus p), stufe = s2\<rparr>, beginn = n2\<rparr>)"
    by blast
  from am_loop_mono [OF le l2] obtain s1 n1 where
    l1: "am_loop (stufe (gus p)) (beginn p) x d1 = Inr (s1, n1)" and
    ord: "Stufe_value s1 \<le> Stufe_value s2" by blast
  from q2 have "stufe (gus q2) = s2" by simp
  moreover from am_InrI [OF x l1]
  have "am p d1 = Inr (if s1 = stufe (gus p) then p
          else \<lparr>gus = \<lparr>gruppe = gruppe (gus p), stufe = s1\<rparr>, beginn = n1\<rparr>)" .
  ultimately show ?thesis using ord by auto
qed

theorem am_monotone_witness:
  "date_le \<lparr>year = 2022, month = 1, day = 1\<rparr> \<lparr>year = 2030, month = 12, day = 31\<rparr> \<and>
   am \<lparr>gus = \<lparr>gruppe = E_10, stufe = drei\<rparr>, beginn = \<lparr>year = 2018, month = 4, day = 1\<rparr>\<rparr>
      \<lparr>year = 2030, month = 12, day = 31\<rparr>
   = Inr \<lparr>gus = \<lparr>gruppe = E_10, stufe = sechs\<rparr>, beginn = \<lparr>year = 2030, month = 4, day = 1\<rparr>\<rparr> \<and>
   am \<lparr>gus = \<lparr>gruppe = E_10, stufe = drei\<rparr>, beginn = \<lparr>year = 2018, month = 4, day = 1\<rparr>\<rparr>
      \<lparr>year = 2022, month = 1, day = 1\<rparr>
   = Inr \<lparr>gus = \<lparr>gruppe = E_10, stufe = vier\<rparr>, beginn = \<lparr>year = 2021, month = 4, day = 1\<rparr>\<rparr> \<and>
   Stufe_value vier \<le> Stufe_value sechs"
proof -
  have le: "date_le \<lparr>year = 2022, month = 1, day = 1\<rparr> \<lparr>year = 2030, month = 12, day = 31\<rparr>"
    by (simp add: date_le_def)
  from am_monotone [OF le am_drei_2030] le am_drei_2030 am_drei_2022 show ?thesis by simp
qed

text \<open>
  The later projection need not return: for a target in the year 9999 the loop asks for a
  due date in the year 10003.
\<close>

theorem am_monotone_counterexample:
  "valid_date \<lparr>year = 9992, month = 7, day = 1\<rparr> \<and>
   valid_date \<lparr>year = 9993, month = 1, day = 1\<rparr> \<and>
   valid_date \<lparr>year = 9999, month = 12, day = 31\<rparr> \<and>
   date_le \<lparr>year = 9993, month = 1, day = 1\<rparr> \<lparr>year = 9999, month = 12, day = 31\<rparr> \<and>
   am \<lparr>gus = \<lparr>gruppe = E_13, stufe = fuenf\<rparr>, beginn = \<lparr>year = 9992, month = 7, day = 1\<rparr>\<rparr>
      \<lparr>year = 9993, month = 1, day = 1\<rparr>
   = Inr \<lparr>gus = \<lparr>gruppe = E_13, stufe = fuenf\<rparr>, beginn = \<lparr>year = 9992, month = 7, day = 1\<rparr>\<rparr> \<and>
   am \<lparr>gus = \<lparr>gruppe = E_13, stufe = fuenf\<rparr>, beginn = \<lparr>year = 9992, month = 7, day = 1\<rparr>\<rparr>
      \<lparr>year = 9999, month = 12, day = 31\<rparr>
   = Inl ValueError"
  by code_simp

text \<open>
  C5: postcondition of the projection. Whenever \<open>p.am(d)\<close> returns a position, it has
  the grade of \<open>p\<close>, its step is reached from the step of \<open>p\<close> by zero or more single
  successors, its ordinal is at least that of \<open>p\<close> and at most 6, its start is not before
  the start of \<open>p\<close>, and its start is not after \<open>d\<close> unless the result is \<open>p\<close> itself.
\<close>

theorem am_postcondition:
  "am p d = Inr q \<Longrightarrow>
     gruppe (gus q) = gruppe (gus p) \<and>
     steigt (stufe (gus p)) (stufe (gus q)) \<and>
     Stufe_value (stufe (gus p)) \<le> Stufe_value (stufe (gus q)) \<and>
     Stufe_value (stufe (gus q)) \<le> 6 \<and>
     date_le (beginn p) (beginn q) \<and>
     (q = p \<or> date_le (beginn q) d)"
  by (rule am_post)

theorem am_postcondition_witness:
  "am \<lparr>gus = \<lparr>gruppe = E_13, stufe = eins\<rparr>, beginn = \<lparr>year = 2019, month = 10, day = 1\<rparr>\<rparr>
      \<lparr>year = 2050, month = 6, day = 30\<rparr>
   = Inr \<lparr>gus = \<lparr>gruppe = E_13, stufe = sechs\<rparr>, beginn = \<lparr>year = 2046, month = 10, day = 1\<rparr>\<rparr> \<and>
   steigt eins sechs \<and>
   date_le \<lparr>year = 2019, month = 10, day = 1\<rparr> \<lparr>year = 2046, month = 10, day = 1\<rparr> \<and>
   date_le \<lparr>year = 2046, month = 10, day = 1\<rparr> \<lparr>year = 2050, month = 6, day = 30\<rparr>"
  using am_postcondition [OF am_eins_2050] am_eins_2050 by simp

text \<open>
  The start of the result can lie after the target date: a target before the start of
  the position returns the position as it is.
\<close>

theorem am_postcondition_counterexample:
  "am \<lparr>gus = \<lparr>gruppe = E_10, stufe = zwei\<rparr>, beginn = \<lparr>year = 2020, month = 1, day = 1\<rparr>\<rparr>
      \<lparr>year = 2019, month = 6, day = 30\<rparr>
   = Inr \<lparr>gus = \<lparr>gruppe = E_10, stufe = zwei\<rparr>, beginn = \<lparr>year = 2020, month = 1, day = 1\<rparr>\<rparr> \<and>
   \<not> date_le \<lparr>year = 2020, month = 1, day = 1\<rparr> \<lparr>year = 2019, month = 6, day = 30\<rparr>"
  by code_simp

text \<open>
  C6: the monthly total. For a stored gross of 3000.00 the code returns 3900.00. For a
  stored gross of 200000000000000.00 it returns 260000000000000.01, where the gross
  multiplied by exactly 1.30 and rounded half-up is 260000000000000.00: the factor is the
  decimal expansion of the float 1.3, not 1.30.
\<close>

theorem summeMonatlich_float_factor:
  "summeMonatlich
     (fst (mitGehalt OetvKosten_init jahr gs
        \<lparr>brutto = \<lparr>dsign = False, dint = 300000, dexp = - 2\<rparr>, sonderzahlung = s\<rparr>)) jahr gs
   = Inr \<lparr>dsign = False, dint = 390000, dexp = - 2\<rparr> \<and>
   summeMonatlich
     (fst (mitGehalt OetvKosten_init jahr gs
        \<lparr>brutto = \<lparr>dsign = False, dint = 20000000000000000, dexp = - 2\<rparr>,
         sonderzahlung = s\<rparr>)) jahr gs
   = Inr \<lparr>dsign = False, dint = 26000000000000001, dexp = - 2\<rparr> \<and>
   monthlyTotal_spec
     (fst (mitGehalt OetvKosten_init jahr gs
        \<lparr>brutto = \<lparr>dsign = False, dint = 20000000000000000, dexp = - 2\<rparr>,
         sonderzahlung = s\<rparr>)) jahr gs
   = Inr \<lparr>dsign = False, dint = 26000000000000000, dexp = - 2\<rparr>"
  by (simp add: summeMonatlich_after_mitGehalt mul_3000 dec_3000 mul_2e14 dec_2e14)
     (simp add: monthlyTotal_spec_def mitGehalt_def OetvKosten_init_def rescale_half_up_def
        round_half_up_def Let_def)

text \<open>
  C7: the ledger is written once per key. \<open>mitGehalt\<close> on a key that has an entry raises
  the assertion error, which carries the year, the group and step and the salary stored,
  and leaves the ledger as it was. On a key without an entry it stores the salary, changes
  no other key, and a second call on that key raises and keeps the first salary.
\<close>

theorem mitGehalt_write_once:
  "(gehaelter k (jahr, gs) = Some g \<longrightarrow>
      mitGehalt k jahr gs gehalt = (k, Inl (AssertionError jahr gs g))) \<and>
   (gehaelter k (jahr, gs) = None \<longrightarrow>
      snd (mitGehalt k jahr gs gehalt) = Inr () \<and>
      gehaelter (fst (mitGehalt k jahr gs gehalt)) (jahr, gs) = Some gehalt \<and>
      (\<forall>key. key \<noteq> (jahr, gs) \<longrightarrow>
         gehaelter (fst (mitGehalt k jahr gs gehalt)) key = gehaelter k key) \<and>
      zuschlag (fst (mitGehalt k jahr gs gehalt)) = zuschlag k \<and>
      mitGehalt (fst (mitGehalt k jahr gs gehalt)) jahr gs gehalt' =
        (fst (mitGehalt k jahr gs gehalt), Inl (AssertionError jahr gs gehalt)))"
  by (simp add: mitGehalt_def)

theorem mitGehalt_write_once_witness:
  "gehaelter OetvKosten_init (2020, \<lparr>gruppe = E_13, stufe = drei\<rparr>) = None \<and>
   gehaelter
     (fst (mitGehalt OetvKosten_init 2020 \<lparr>gruppe = E_13, stufe = drei\<rparr>
        \<lparr>brutto = \<lparr>dsign = False, dint = 451234, dexp = - 2\<rparr>,
         sonderzahlung = \<lparr>dsign = False, dint = 210000, dexp = - 2\<rparr>\<rparr>))
     (2020, \<lparr>gruppe = E_13, stufe = drei\<rparr>)
   = Some \<lparr>brutto = \<lparr>dsign = False, dint = 451234, dexp = - 2\<rparr>,
           sonderzahlung = \<lparr>dsign = False, dint = 210000, dexp = - 2\<rparr>\<rparr> \<and>
   mitGehalt
     (fst (mitGehalt OetvKosten_init 2020 \<lparr>gruppe = E_13, stufe = drei\<rparr>
        \<lparr>brutto = \<lparr>dsign = False, dint = 451234, dexp = - 2\<rparr>,
         sonderzahlung = \<lparr>dsign = False, dint = 210000, dexp = - 2\<rparr>\<rparr>))
     2020 \<lparr>gruppe = E_13, stufe = drei\<rparr>
     \<lparr>brutto = \<lparr>dsign = False, dint = 999999, dexp = - 2\<rparr>,
      sonderzahlung = \<lparr>dsign = False, dint = 0, dexp = - 2\<rparr>\<rparr>
   = (fst (mitGehalt OetvKosten_init 2020 \<lparr>gruppe = E_13, stufe = drei\<rparr>
        \<lparr>brutto = \<lparr>dsign = False, dint = 451234, dexp = - 2\<rparr>,
         sonderzahlung = \<lparr>dsign = False, dint = 210000, dexp = - 2\<rparr>\<rparr>),
      Inl (AssertionError 2020 \<lparr>gruppe = E_13, stufe = drei\<rparr>
        \<lparr>brutto = \<lparr>dsign = False, dint = 451234, dexp = - 2\<rparr>,
         sonderzahlung = \<lparr>dsign = False, dint = 210000, dexp = - 2\<rparr>\<rparr>))"
proof -
  let ?gs = "\<lparr>gruppe = E_13, stufe = drei\<rparr>"
  let ?g1 = "\<lparr>brutto = \<lparr>dsign = False, dint = 451234, dexp = - 2\<rparr>,
             sonderzahlung = \<lparr>dsign = False, dint = 210000, dexp = - 2\<rparr>\<rparr>"
  let ?g2 = "\<lparr>brutto = \<lparr>dsign = False, dint = 999999, dexp = - 2\<rparr>,
             sonderzahlung = \<lparr>dsign = False, dint = 0, dexp = - 2\<rparr>\<rparr>"
  let ?k1 = "fst (mitGehalt OetvKosten_init 2020 ?gs ?g1)"
  have none: "gehaelter OetvKosten_init (2020, ?gs) = None"
    by (simp add: OetvKosten_init_def)
  from mitGehalt_write_once [of OetvKosten_init 2020 ?gs _ ?g1] none
  have some: "gehaelter ?k1 (2020, ?gs) = Some ?g1" by simp
  from mitGehalt_write_once [of ?k1 2020 ?gs ?g1 ?g2] some
  have "mitGehalt ?k1 2020 ?gs ?g2 = (?k1, Inl (AssertionError 2020 ?gs ?g1))" by simp
  with none some show ?thesis by simp
qed

text \<open>
  C9: the operations of the pay scale. The next step and the interval exist for every
  step, the interval between 1 and 6 years. The next advancement date is the same month
  and day with the year advanced by the interval, for every valid date that is not a
  29 February and whose year plus the interval is at most 9999.
\<close>

theorem payscale_operations:
  "(\<exists>t. naechste s = Inr t) \<and> 1 \<le> jahre s \<and> jahre s \<le> 6 \<and>
   (valid_date x \<and> year x + jahre s \<le> MAXYEAR \<and> \<not> (month x = 2 \<and> day x = 29) \<longrightarrow>
      naechsterAufstieg s x = Inr \<lparr>year = year x + jahre s, month = month x, day = day x\<rparr>)"
  by (simp add: naechste_total jahre_pos jahre_le_6 naechsterAufstieg_ok)

theorem payscale_operations_witness:
  "valid_date \<lparr>year = 2020, month = 12, day = 31\<rparr> \<and> 2020 + jahre vier \<le> MAXYEAR \<and>
   (\<exists>t. naechste vier = Inr t) \<and>
   naechsterAufstieg vier \<lparr>year = 2020, month = 12, day = 31\<rparr>
     = Inr \<lparr>year = 2024, month = 12, day = 31\<rparr>"
proof -
  have v: "valid_date \<lparr>year = 2020, month = 12, day = 31\<rparr>"
    by (simp add: valid_date_def MINYEAR_def MAXYEAR_def days_in_month_def)
  have y: "2020 + jahre vier \<le> MAXYEAR"
    by (simp add: jahre_def MAXYEAR_def)
  from payscale_operations [of vier "\<lparr>year = 2020, month = 12, day = 31\<rparr>"] v y
  show ?thesis by (simp add: jahre_def)
qed

text \<open>
  Beyond the year 9999 there is no date: the next advancement after 9999-01-01 raises.
\<close>

theorem payscale_operations_counterexample:
  "valid_date \<lparr>year = 9999, month = 1, day = 1\<rparr> \<and>
   naechsterAufstieg eins \<lparr>year = 9999, month = 1, day = 1\<rparr> = Inl ValueError"
  by code_simp

end
